theory Spec2Isabelle
  imports Complex_Main
begin

section \<open>Conventions of the embedding\<close>

text \<open>
  The loan workflow is embedded function by function. Python dictionaries with a fixed set of
  keys become records; a key read with \<^verbatim>\<open>.get\<close> becomes an \<open>option\<close> field
  (\<open>None\<close> stands for an absent key and for the value \<^verbatim>\<open>None\<close> alike, which
  \<^verbatim>\<open>.get\<close> does not tell apart). Python numbers that carry money, rates and ratios
  are exact rationals: the embedding follows which comparisons are made and which results
  are rounded, not the binary representation of a float. An exception raised by the source is
  the \<open>Inl\<close> branch of a sum.
\<close>

datatype py_error = ZeroDivisionError | IndexError

text \<open>Truthiness, as \<^verbatim>\<open>not x\<close> and \<^verbatim>\<open>all([...])\<close> read it.\<close>

definition truthy_num :: "rat option \<Rightarrow> bool" where
  "truthy_num v = (case v of None \<Rightarrow> False | Some x \<Rightarrow> x \<noteq> 0)"

definition truthy_int :: "int option \<Rightarrow> bool" where
  "truthy_int v = (case v of None \<Rightarrow> False | Some x \<Rightarrow> x \<noteq> 0)"

definition truthy_str :: "string option \<Rightarrow> bool" where
  "truthy_str v = (case v of None \<Rightarrow> False | Some x \<Rightarrow> x \<noteq> [])"

definition truthy_bool :: "bool option \<Rightarrow> bool" where
  "truthy_bool v = (case v of None \<Rightarrow> False | Some x \<Rightarrow> x)"

subsection \<open>Decimal rendering of integers\<close>

definition digit :: "nat \<Rightarrow> char" where
  "digit d = ''0123456789'' ! (d mod 10)"

fun str_nat :: "nat \<Rightarrow> string" where
  "str_nat n = (if n < 10 then [digit n] else str_nat (n div 10) @ [digit (n mod 10)])"

declare str_nat.simps [simp del]

definition str_int :: "int \<Rightarrow> string" where
  "str_int i = (if i < 0 then CHR ''-'' # str_nat (nat (- i)) else str_nat (nat i))"

section \<open>The customer store (crm\_tools)\<close>

text \<open>
  \<^verbatim>\<open>load_customer_data\<close> reads \<^verbatim>\<open>data/customers.json\<close>; the list it returns is the
  parameter \<open>db\<close> of every function that consults it. The fields are the keys the code
  reads; a loan's \<^verbatim>\<open>emi\<close> and \<^verbatim>\<open>outstanding\<close> are read with a default of 0.
\<close>

record loan =
  loan_emi :: "rat option"
  loan_outstanding :: "rat option"

record customer =
  cust_id :: string
  cust_name :: string
  cust_phone :: string
  cust_credit_score :: int
  cust_pre_approved_limit :: rat
  cust_monthly_salary :: rat
  cust_segment :: string
  cust_existing_loans :: "loan list"

definition get_customer_by_id :: "customer list \<Rightarrow> string \<Rightarrow> customer option" where
  "get_customer_by_id db customer_id = List.find (\<lambda>c. cust_id c = customer_id) db"

definition get_existing_loans :: "customer list \<Rightarrow> string \<Rightarrow> loan list" where
  "get_existing_loans db customer_id =
     (case get_customer_by_id db customer_id of
        Some c \<Rightarrow> cust_existing_loans c
      | None \<Rightarrow> [])"

definition calculate_total_existing_emi :: "customer list \<Rightarrow> string \<Rightarrow> rat" where
  "calculate_total_existing_emi db customer_id =
     sum_list (map (\<lambda>l. case loan_emi l of None \<Rightarrow> 0 | Some e \<Rightarrow> e)
                   (get_existing_loans db customer_id))"

section \<open>The application record (workflow state)\<close>

text \<open>
  \<^verbatim>\<open>LoanApplicationState\<close> is a dictionary; its fields here are the keys that
  \<^verbatim>\<open>graph.py\<close> and the agents read and write.
\<close>

record message =
  role :: string
  content :: string
  agent :: "string option"

record offer =
  offer_amount :: rat
  offer_tenure_months :: int
  offer_interest_rate :: rat
  offer_monthly_emi :: rat
  offer_processing_fee :: rat
  offer_total_interest :: rat
  offer_total_payable :: rat
  offer_savings_vs_market :: rat

record state =
  customer_id :: "string option"
  conversation_history :: "message list"
  current_stage :: "string option"
  next_action :: "string option"
  active_agent :: "string option"
  application_status :: "string option"
  requested_amount :: "rat option"
  customer_needs :: "string option"
  recommended_offers :: "offer list option"
  tenure_months :: "int option"
  interest_rate :: "rat option"
  monthly_emi :: "rat option"
  monthly_salary :: "rat option"
  salary_slip_uploaded :: "bool option"
  credit_score :: "int option"
  underwriting_decision :: "string option"
  approved_amount :: "rat option"
  conditional_requirements :: "string list option"
  rejection_reason :: "string option"
  sanction_letter_url :: "string option"
  sanction_letter_ref_no :: "string option"
  last_error :: "string option"

text \<open>
  Modelled from the spec: \<^verbatim>\<open>add_message\<close> of \<^verbatim>\<open>src/workflow/state.py\<close>, which is
  not among the source files. The conversation history is an ordered, append-only sequence
  of entries with a role, an optional author unit and a content; the timestamp of an entry
  is left out.
\<close>

definition add_message :: "state \<Rightarrow> string \<Rightarrow> string \<Rightarrow> string option \<Rightarrow> state" where
  "add_message s r c a =
     s\<lparr>conversation_history :=
          conversation_history s @ [\<lparr>role = r, content = c, agent = a\<rparr>]\<rparr>"

text \<open>
  Modelled from the spec: \<^verbatim>\<open>update_state(state, {k: v, ...})\<close> of the same missing
  module returns the record with the listed keys overwritten and every other key kept; it
  is written as the record update \<open>s\<lparr>k := v, ...\<rparr>\<close> throughout.
\<close>

section \<open>Routing (graph.py)\<close>

text \<open>
  The router reads three keys of the record. The master and the verification node call
  agents whose modules are not among the source files; they are not embedded.
\<close>

definition route_master_agent :: "state \<Rightarrow> string" where
  "route_master_agent s =
     (if next_action s = Some ''delegate_to_sales'' then ''sales''
      else if next_action s = Some ''delegate_to_verification'' then ''verification''
      else if next_action s = Some ''delegate_to_underwriting'' then ''underwriting''
      else if next_action s = Some ''delegate_to_sanction'' then ''sanction''
      else if current_stage s = Some ''closure''
              \<and> application_status s \<in> {Some ''approved'', Some ''rejected'', Some ''abandoned''}
           then ''end''
      else ''master'')"

text \<open>
  The dispatch policy in the words of the specification, as a function of the routing signal,
  the stage and the status alone: an explicit delegation names its unit; without one, a closed
  application in the closure stage ends the conversation; anything else stays with the master.
\<close>

definition delegation_target :: "string option \<Rightarrow> string option" where
  "delegation_target signal =
     map_of [(Some ''delegate_to_sales'', ''sales''),
             (Some ''delegate_to_verification'', ''verification''),
             (Some ''delegate_to_underwriting'', ''underwriting''),
             (Some ''delegate_to_sanction'', ''sanction'')] signal"

definition dispatch_policy :: "string option \<Rightarrow> string option \<Rightarrow> string option \<Rightarrow> string" where
  "dispatch_policy signal stage status =
     (case delegation_target signal of
        Some unit_name \<Rightarrow> unit_name
      | None \<Rightarrow>
          if stage = Some ''closure''
             \<and> (status = Some ''approved'' \<or> status = Some ''rejected'' \<or> status = Some ''abandoned'')
          then ''end'' else ''master'')"

section \<open>EMI arithmetic (calculation\_tools, credit\_tools)\<close>

text \<open>
  \<^verbatim>\<open>round(x, 2)\<close>: Python rounds to the nearest multiple of 1/100, a tie going to
  the even neighbour.
\<close>

definition round_half_even :: "rat \<Rightarrow> int" where
  "round_half_even x =
     (let f = \<lfloor>x\<rfloor>; d = x - of_int f in
      if d < 1 / 2 then f
      else if 1 / 2 < d then f + 1
      else if even f then f else f + 1)"

definition round2 :: "rat \<Rightarrow> rat" where
  "round2 x = of_int (round_half_even (x * 100)) / 100"

text \<open>
  \<^verbatim>\<open>x ** n\<close> for an integer exponent: a negative power of zero raises
  \<^verbatim>\<open>ZeroDivisionError\<close>.
\<close>

definition py_pow :: "rat \<Rightarrow> int \<Rightarrow> py_error + rat" where
  "py_pow x n =
     (if 0 \<le> n then Inr (x ^ nat n)
      else if x = 0 then Inl ZeroDivisionError
      else Inr (1 / x ^ nat (- n)))"

text \<open>
  \<^verbatim>\<open>calculate_emi\<close> has the same text in \<^verbatim>\<open>calculation_tools.py\<close> and in
  \<^verbatim>\<open>credit_tools.py\<close>. The zero-rate branch returns the quotient as it is; only the
  other branch rounds.
\<close>

definition calculate_emi :: "rat \<Rightarrow> rat \<Rightarrow> int \<Rightarrow> py_error + rat" where
  "calculate_emi princ annual_rate months =
     (let monthly_rate = annual_rate / 12 in
      if monthly_rate = 0 then
        (if months = 0 then Inl ZeroDivisionError
         else Inr (princ / of_int months))
      else
        (case py_pow (1 + monthly_rate) months of
           Inl e \<Rightarrow> Inl e
         | Inr g \<Rightarrow>
             if g - 1 = 0 then Inl ZeroDivisionError
             else Inr (round2 (princ * monthly_rate * g / (g - 1)))))"

definition calculate_total_interest :: "rat \<Rightarrow> rat \<Rightarrow> int \<Rightarrow> py_error + rat" where
  "calculate_total_interest princ annual_rate months =
     (case calculate_emi princ annual_rate months of
        Inl e \<Rightarrow> Inl e
      | Inr emi \<Rightarrow>
          (let total_payable = emi * of_int months;
               total_interest = total_payable - princ
           in Inr (round2 total_interest)))"

definition calculate_loan_amount_from_emi :: "rat \<Rightarrow> rat \<Rightarrow> int \<Rightarrow> py_error + rat" where
  "calculate_loan_amount_from_emi emi annual_rate months =
     (let monthly_rate = annual_rate / 12 in
      if monthly_rate = 0 then Inr (emi * of_int months)
      else
        (case py_pow (1 + monthly_rate) months of
           Inl e \<Rightarrow> Inl e
         | Inr g \<Rightarrow>
             if monthly_rate * g = 0 then Inl ZeroDivisionError
             else Inr (round2 (emi * (g - 1) / (monthly_rate * g)))))"

text \<open>
  The annuity formula in the words of the specification: the monthly payment on a principal
  \<open>P\<close> at monthly rate \<open>r\<close> over \<open>n\<close> months, and \<open>P / n\<close> at rate zero.
\<close>

definition annuity_payment :: "rat \<Rightarrow> rat \<Rightarrow> nat \<Rightarrow> rat" where
  "annuity_payment P r n =
     (if r = 0 then P / of_nat n
      else P * r * (1 + r) ^ n / ((1 + r) ^ n - 1))"

section \<open>Underwriting rules (credit\_tools)\<close>

record credit_result =
  cr_credit_score :: int
  cr_active_accounts :: nat
  cr_total_outstanding :: rat
  cr_payment_history :: string

text \<open>\<open>None\<close> is the result \<^verbatim>\<open>{"success": False, "error": "Customer not found"}\<close>.\<close>

definition fetch_credit_score :: "customer list \<Rightarrow> string \<Rightarrow> credit_result option" where
  "fetch_credit_score db cid =
     (case get_customer_by_id db cid of
        None \<Rightarrow> None
      | Some c \<Rightarrow>
          Some \<lparr>cr_credit_score = cust_credit_score c,
                cr_active_accounts = length (cust_existing_loans c),
                cr_total_outstanding =
                  sum_list (map (\<lambda>l. case loan_outstanding l of None \<Rightarrow> 0 | Some x \<Rightarrow> x)
                                (cust_existing_loans c)),
                cr_payment_history =
                  (if 700 < cust_credit_score c then ''regular'' else ''irregular'')\<rparr>)"

text \<open>
  The dictionary \<^verbatim>\<open>check_eligibility\<close> returns. A key that a branch leaves out is
  \<open>None\<close>, the empty list or \<open>False\<close>, which is what its readers' \<^verbatim>\<open>.get\<close>
  defaults make of it.
\<close>

record eligibility =
  decision :: string
  reason :: string
  el_approved_amount :: "rat option"
  conditions :: "string list"
  recommendations :: "string list"
  instant_approval :: bool
  el_monthly_emi :: "rat option"
  total_monthly_obligation :: "rat option"
  emi_to_income_ratio :: "rat option"

text \<open>
  The rendering of amounts and ratios inside reason and recommendation texts (the format
  specifications \<^verbatim>\<open>:,.0f\<close> after a currency sign, and \<^verbatim>\<open>:.1%\<close>) is a parameter.
\<close>

record formats =
  money :: "rat \<Rightarrow> string"
  percent :: "rat \<Rightarrow> string"

definition verdict :: "string \<Rightarrow> string \<Rightarrow> rat option \<Rightarrow> string list \<Rightarrow> string list \<Rightarrow> eligibility" where
  "verdict d r amt conds recs =
     \<lparr>decision = d, reason = r, el_approved_amount = amt, conditions = conds,
      recommendations = recs, instant_approval = False, el_monthly_emi = None,
      total_monthly_obligation = None, emi_to_income_ratio = None\<rparr>"

definition check_eligibility ::
  "formats \<Rightarrow> customer list \<Rightarrow> string \<Rightarrow> rat \<Rightarrow> rat option \<Rightarrow> py_error + eligibility" where
  "check_eligibility fmt db cid amount salary =
     (case get_customer_by_id db cid of
        None \<Rightarrow> Inr (verdict ''rejected'' ''Customer not found in system'' None [] [])
      | Some c \<Rightarrow>
          (let score = cust_credit_score c; pre_approved_limit = cust_pre_approved_limit c in
           if score < 700 then
             Inr (verdict ''rejected''
                    (''Credit score ('' @ str_int score
                       @ '') is below minimum requirement (700)'')
                    None []
                    [''Improve credit score by paying existing EMIs on time'',
                     ''Reduce credit card utilization'',
                     ''Clear any overdue payments''])
           else if amount \<le> pre_approved_limit then
             Inr ((verdict ''approved'' ''Loan amount is within pre-approved limit''
                     (Some amount) [] [])\<lparr>instant_approval := True\<rparr>)
           else if 2 * pre_approved_limit < amount then
             Inr (verdict ''rejected''
                    (''Requested amount ('' @ money fmt amount
                       @ '') exceeds maximum eligible limit (''
                       @ money fmt (2 * pre_approved_limit) @ '')'')
                    None []
                    [''Consider applying for '' @ money fmt pre_approved_limit
                       @ '' (pre-approved amount)'',
                     ''Maximum eligible amount: '' @ money fmt (2 * pre_approved_limit)])
           else
             (case salary of
                None \<Rightarrow>
                  Inr (verdict ''needs_documents''
                         ''Salary slip verification required for amount above pre-approved limit''
                         None [''salary_slip_upload''] [])
              | Some monthly \<Rightarrow>
                  (let monthly_rate = (12 / 100) / 12; tenure = 36 in
                   case calculate_emi amount (monthly_rate * 12) tenure of
                     Inl e \<Rightarrow> Inl e
                   | Inr emi \<Rightarrow>
                       (let total_existing_emi = calculate_total_existing_emi db cid;
                            total_emi = emi + total_existing_emi
                        in if monthly = 0 then Inl ZeroDivisionError
                           else
                             (let ratio = total_emi / monthly in
                              if ratio \<le> 1 / 2 then
                                Inr ((verdict ''approved''
                                        (''EMI-to-income ratio ('' @ percent fmt ratio
                                           @ '') is within acceptable limits'')
                                        (Some amount) [] [])
                                      \<lparr>el_monthly_emi := Some emi,
                                        total_monthly_obligation := Some total_emi,
                                        emi_to_income_ratio := Some ratio\<rparr>)
                              else
                                (let max_affordable_emi = monthly * (1 / 2) - total_existing_emi in
                                 case calculate_loan_amount_from_emi max_affordable_emi
                                        (monthly_rate * 12) tenure of
                                   Inl e \<Rightarrow> Inl e
                                 | Inr max_affordable_amount \<Rightarrow>
                                     Inr (verdict ''rejected''
                                            (''EMI-to-income ratio ('' @ percent fmt ratio
                                               @ '') exceeds maximum limit (50%)'')
                                            None []
                                            [''Maximum affordable loan amount: ''
                                               @ money fmt max_affordable_amount,
                                             ''Consider increasing tenure to reduce EMI'',
                                             ''Current total EMI obligation: ''
                                               @ money fmt total_emi @ '' (''
                                               @ percent fmt ratio @ '' of income)'']))))))))"

definition calculate_risk_score :: "customer list \<Rightarrow> string \<Rightarrow> rat \<Rightarrow> py_error + rat" where
  "calculate_risk_score db cid amount =
     (case get_customer_by_id db cid of
        None \<Rightarrow> Inr 100
      | Some c \<Rightarrow>
          (let existing_emi = calculate_total_existing_emi db cid;
               credit_risk = max 0 ((750 - of_int (cust_credit_score c)) / 10)
           in if cust_pre_approved_limit c = 0 then Inl ZeroDivisionError
              else
                (let amount_risk = (amount / cust_pre_approved_limit c - 1) * 20 in
                 if cust_monthly_salary c = 0 then Inl ZeroDivisionError
                 else
                   (let dti_risk = (existing_emi / cust_monthly_salary c) * 30;
                        risk_score = credit_risk + amount_risk + dti_risk
                    in Inr (min 100 (max 0 risk_score))))))"

section \<open>The underwriting unit (underwriting\_agent, graph.py)\<close>

record uw_success =
  uw_decision :: string
  uw_credit_score :: int
  uw_risk_score :: rat
  uw_eligibility_details :: eligibility
  uw_message :: string
  uw_approved_amount :: "rat option"
  uw_conditions :: "string list"
  uw_recommendations :: "string list"

text \<open>An agent's result dictionary: \<^verbatim>\<open>success\<close> false with an error text, or true with a payload.\<close>

datatype 'a agent_result = Failure string | Success 'a

text \<open>
  In \<^verbatim>\<open>process_underwriting\<close> the customer is looked up again after the credit result was
  fetched for the same identifier, so the second lookup finds it; the branch for a missing
  customer there is never taken. The decision message is assembled by \<^verbatim>\<open>_generate_decision_message\<close> from the
  eligibility, the credit result, the risk score, the customer and the requested amount; its
  wording is a parameter of the unit.
\<close>

type_synonym decision_text =
  "eligibility \<Rightarrow> credit_result \<Rightarrow> rat \<Rightarrow> customer \<Rightarrow> rat \<Rightarrow> string"

definition process_underwriting ::
  "decision_text \<Rightarrow> formats \<Rightarrow> customer list \<Rightarrow> state \<Rightarrow> py_error + uw_success agent_result" where
  "process_underwriting say fmt db s =
     (if \<not> truthy_str (customer_id s) \<or> \<not> truthy_num (requested_amount s) then
        Inr (Failure ''Missing customer ID or requested amount'')
      else
        (let cid = the (customer_id s); amount = the (requested_amount s) in
         case fetch_credit_score db cid of
           None \<Rightarrow> Inr (Failure ''Unable to fetch credit score'')
         | Some credit \<Rightarrow>
             (case get_customer_by_id db cid of
                None \<Rightarrow> Inr (Failure ''Unable to fetch credit score'')
              | Some c \<Rightarrow>
                  (let salary = (if truthy_num (monthly_salary s) then monthly_salary s
                                 else Some (cust_monthly_salary c))
                   in case check_eligibility fmt db cid amount
                             (if truthy_bool (salary_slip_uploaded s) then salary else None) of
                        Inl e \<Rightarrow> Inl e
                      | Inr el \<Rightarrow>
                          (case calculate_risk_score db cid amount of
                             Inl e \<Rightarrow> Inl e
                           | Inr risk \<Rightarrow>
                               Inr (Success
                                 \<lparr>uw_decision = decision el,
                                  uw_credit_score = cr_credit_score credit,
                                  uw_risk_score = risk,
                                  uw_eligibility_details = el,
                                  uw_message = say el credit risk c amount,
                                  uw_approved_amount = el_approved_amount el,
                                  uw_conditions = conditions el,
                                  uw_recommendations = recommendations el\<rparr>))))))"

definition underwriting_agent_node ::
  "decision_text \<Rightarrow> formats \<Rightarrow> customer list \<Rightarrow> state \<Rightarrow> py_error + state" where
  "underwriting_agent_node say fmt db s =
     (case process_underwriting say fmt db s of
        Inl e \<Rightarrow> Inl e
      | Inr (Success r) \<Rightarrow>
          (let new_state = add_message s ''assistant'' (uw_message r) (Some ''underwriting'');
               new_state = new_state
                 \<lparr>credit_score := Some (uw_credit_score r),
                  underwriting_decision := Some (uw_decision r),
                  approved_amount := uw_approved_amount r,
                  conditional_requirements := Some (uw_conditions r),
                  rejection_reason := Some (reason (uw_eligibility_details r)),
                  active_agent := Some ''master'',
                  next_action := None\<rparr>
           in if uw_decision r = ''approved'' then
                Inr (new_state\<lparr>application_status := Some ''approved''\<rparr>)
              else if uw_decision r = ''rejected'' then
                Inr (new_state\<lparr>application_status := Some ''rejected''\<rparr>)
              else Inr new_state)
      | Inr (Failure err) \<Rightarrow>
          Inr (s\<lparr>active_agent := Some ''master'', last_error := Some err\<rparr>))"

section \<open>The sales unit (calculation\_tools, sales\_agent, graph.py)\<close>

definition make_offer :: "rat \<Rightarrow> rat \<Rightarrow> int \<Rightarrow> py_error + offer" where
  "make_offer amount final_rate tenure =
     (case calculate_emi amount final_rate tenure of
        Inl e \<Rightarrow> Inl e
      | Inr emi \<Rightarrow>
          (case calculate_total_interest amount final_rate tenure of
             Inl e \<Rightarrow> Inl e
           | Inr total_interest \<Rightarrow>
               Inr \<lparr>offer_amount = amount,
                    offer_tenure_months = tenure,
                    offer_interest_rate = final_rate,
                    offer_monthly_emi = emi,
                    offer_processing_fee = round2 (amount * (2 / 100)),
                    offer_total_interest = total_interest,
                    offer_total_payable = amount + total_interest,
                    offer_savings_vs_market =
                      round2 ((15 / 100 - final_rate) * amount * of_int tenure / 12)\<rparr>))"

text \<open>
  One entry of the offer list; the two display strings of an offer (\<^verbatim>\<open>tenure_display\<close>,
  \<^verbatim>\<open>interest_rate_display\<close>) are left out. The loop over the tenures ends at the first
  raised error.
\<close>

fun offers_for :: "rat \<Rightarrow> rat \<Rightarrow> int list \<Rightarrow> py_error + offer list" where
  "offers_for amount final_rate [] = Inr []"
| "offers_for amount final_rate (tenure # rest) =
     (case make_offer amount final_rate tenure of
        Inl e \<Rightarrow> Inl e
      | Inr x \<Rightarrow>
          (case offers_for amount final_rate rest of
             Inl e \<Rightarrow> Inl e
           | Inr xs \<Rightarrow> Inr (x # xs)))"

definition generate_loan_offers :: "customer list \<Rightarrow> string \<Rightarrow> rat \<Rightarrow> py_error + offer list" where
  "generate_loan_offers db cid amount =
     (case get_customer_by_id db cid of
        None \<Rightarrow> Inr []
      | Some c \<Rightarrow>
          (let base_rate =
                 (if cust_segment c = ''premium'' then 10 / 100
                  else if cust_segment c = ''prime'' then 11 / 100
                  else if cust_segment c = ''preferred'' then 12 / 100
                  else 14 / 100);
               rate_adjustment =
                 (if 800 \<le> cust_credit_score c then - (1 / 100)
                  else if 750 \<le> cust_credit_score c then 0
                  else if 700 \<le> cust_credit_score c then 1 / 100
                  else 2 / 100);
               final_rate = base_rate + rate_adjustment
           in offers_for amount final_rate [12, 24, 36]))"

record sales_success =
  sl_offers :: "offer list"
  sl_presentation :: string
  sl_recommended_offer :: offer
  sl_customer_segment :: string

text \<open>
  The presentation is the text \<^verbatim>\<open>_create_sales_presentation\<close> writes from the customer,
  the amount, the offers and the stated needs; it is a parameter. The recommended offer is
  the second one when there are at least two, else the first, and indexing an empty list
  raises \<^verbatim>\<open>IndexError\<close>.
\<close>

type_synonym presentation_text = "customer \<Rightarrow> rat \<Rightarrow> offer list \<Rightarrow> string \<Rightarrow> string"

definition process_sales ::
  "presentation_text \<Rightarrow> customer list \<Rightarrow> state \<Rightarrow> rat \<Rightarrow> string
     \<Rightarrow> py_error + sales_success agent_result" where
  "process_sales present db s amount needs =
     (if \<not> truthy_str (customer_id s) then Inr (Failure ''Customer ID not available'')
      else
        (let cid = the (customer_id s) in
         case get_customer_by_id db cid of
           None \<Rightarrow> Inr (Failure ''Customer not found'')
         | Some c \<Rightarrow>
             (case generate_loan_offers db cid amount of
                Inl e \<Rightarrow> Inl e
              | Inr offers \<Rightarrow>
                  (case offers of
                     [] \<Rightarrow> Inl IndexError
                   | first # others \<Rightarrow>
                       Inr (Success
                         \<lparr>sl_offers = offers,
                          sl_presentation = present c amount offers needs,
                          sl_recommended_offer =
                            (case others of [] \<Rightarrow> first | second # _ \<Rightarrow> second),
                          sl_customer_segment = cust_segment c\<rparr>)))))"

definition sales_agent_node ::
  "presentation_text \<Rightarrow> customer list \<Rightarrow> state \<Rightarrow> py_error + state" where
  "sales_agent_node present db s =
     (let needs = (case customer_needs s of
                     None \<Rightarrow> ''Personal loan requirement'' | Some n \<Rightarrow> n)
      in if \<not> truthy_num (requested_amount s) then
           Inr (s\<lparr>active_agent := Some ''master'', next_action := None\<rparr>)
         else
           (case process_sales present db s (the (requested_amount s)) needs of
              Inl e \<Rightarrow> Inl e
            | Inr (Success r) \<Rightarrow>
                (let new_state = add_message s ''assistant'' (sl_presentation r) (Some ''sales'')
                 in Inr (new_state
                      \<lparr>recommended_offers := Some (sl_offers r),
                       tenure_months := Some (offer_tenure_months (sl_recommended_offer r)),
                       interest_rate := Some (offer_interest_rate (sl_recommended_offer r)),
                       monthly_emi := Some (offer_monthly_emi (sl_recommended_offer r)),
                       active_agent := Some ''master'',
                       next_action := None\<rparr>))
            | Inr (Failure err) \<Rightarrow>
                Inr (s\<lparr>active_agent := Some ''master'', next_action := None,
                       last_error := Some err\<rparr>)))"

section \<open>The sanction unit (document\_tools, sanction\_agent, graph.py)\<close>

text \<open>
  What the unit takes from its surroundings: the directory of the module (for the output
  path), the clock read for the reference number and read again for the file name, and the
  rendered validity date. The file system is the list of the paths written so far.
\<close>

record datetime =
  dt_year :: nat
  dt_month :: nat
  dt_day :: nat
  dt_hour :: nat
  dt_minute :: nat
  dt_second :: nat

record surroundings =
  module_dir :: string
  ref_time :: datetime
  file_time :: datetime
  validity_date :: string

definition pad2 :: "nat \<Rightarrow> string" where
  "pad2 n = (if n < 10 then CHR ''0'' # str_nat n else str_nat n)"

text \<open>\<^verbatim>\<open>strftime('%Y%m%d')\<close> and \<^verbatim>\<open>strftime('%Y%m%d_%H%M%S')\<close>, for years of four digits.\<close>

definition strftime_date :: "datetime \<Rightarrow> string" where
  "strftime_date d = str_nat (dt_year d) @ pad2 (dt_month d) @ pad2 (dt_day d)"

definition strftime_stamp :: "datetime \<Rightarrow> string" where
  "strftime_stamp d =
     strftime_date d @ ''_'' @ pad2 (dt_hour d) @ pad2 (dt_minute d) @ pad2 (dt_second d)"

text \<open>\<^verbatim>\<open>os.path.join\<close> of two components and \<^verbatim>\<open>os.path.basename\<close>, on POSIX paths.\<close>

definition path_join :: "string \<Rightarrow> string \<Rightarrow> string" where
  "path_join a b =
     (if b \<noteq> [] \<and> hd b = CHR ''/'' then b
      else if a = [] \<or> last a = CHR ''/'' then a @ b
      else a @ ''/'' @ b)"

definition basename :: "string \<Rightarrow> string" where
  "basename p = rev (takeWhile (\<lambda>c. c \<noteq> CHR ''/'') (rev p))"

text \<open>
  \<^verbatim>\<open>customer['name'].split()[0]\<close>: the first run of characters that are not white space;
  a name without one raises \<^verbatim>\<open>IndexError\<close>.
\<close>

definition is_space :: "char \<Rightarrow> bool" where
  "is_space c = (c \<in> set [CHR '' '', CHR 0x09, CHR 0x0A, CHR 0x0B, CHR 0x0C, CHR 0x0D,
                           CHR 0x1C, CHR 0x1D, CHR 0x1E, CHR 0x1F])"

definition first_word :: "string \<Rightarrow> py_error + string" where
  "first_word name =
     (let w = takeWhile (\<lambda>c. \<not> is_space c) (dropWhile is_space name) in
      if w = [] then Inl IndexError else Inr w)"

record letter =
  lt_reference_number :: string
  lt_file_path :: string
  lt_filename :: string
  lt_validity_date :: string

definition letter_reference :: "surroundings \<Rightarrow> string \<Rightarrow> string" where
  "letter_reference env cid = ''SL/'' @ strftime_date (ref_time env) @ ''/'' @ cid"

definition letter_filename :: "surroundings \<Rightarrow> string \<Rightarrow> string" where
  "letter_filename env cid =
     ''sanction_letter_'' @ cid @ ''_'' @ strftime_stamp (file_time env) @ ''.pdf''"

definition letter_path :: "surroundings \<Rightarrow> string \<Rightarrow> string" where
  "letter_path env cid =
     path_join (path_join (module_dir env) ''../../data/output'') (letter_filename env cid)"

text \<open>
  \<^verbatim>\<open>generate_sanction_letter\<close>: \<open>None\<close> is the result for an unknown customer. The
  document is laid out and written by the PDF library; of that, the embedding keeps the
  greeting line, which can raise, and the write to the path.
\<close>

definition generate_sanction_letter ::
  "surroundings \<Rightarrow> customer list \<Rightarrow> string \<Rightarrow> rat \<Rightarrow> int \<Rightarrow> rat \<Rightarrow> rat \<Rightarrow> string list
     \<Rightarrow> py_error + (letter option \<times> string list)" where
  "generate_sanction_letter env db cid loan_amount months rate emi written =
     (case get_customer_by_id db cid of
        None \<Rightarrow> Inr (None, written)
      | Some c \<Rightarrow>
          (let ref_no = letter_reference env cid;
               filename = letter_filename env cid;
               filepath = letter_path env cid
           in case first_word (cust_name c) of
                Inl e \<Rightarrow> Inl e
              | Inr _ \<Rightarrow>
                  Inr (Some \<lparr>lt_reference_number = ref_no, lt_file_path = filepath,
                             lt_filename = filename,
                             lt_validity_date = validity_date env\<rparr>,
                       written @ [filepath])))"

definition get_document_download_url :: "string \<Rightarrow> string" where
  "get_document_download_url filepath = ''/api/documents/download/'' @ basename filepath"

record sanction_success =
  sn_sanction_letter_url :: string
  sn_file_path :: string
  sn_reference_number :: string
  sn_validity_date :: string
  sn_message :: string

text \<open>
  The congratulation is the text of \<^verbatim>\<open>_create_sanction_message\<close> (customer, amount,
  tenure, instalment, reference, download location, validity date); it is a parameter, and
  its first line takes the first word of the customer's name.
\<close>

type_synonym sanction_text =
  "customer \<Rightarrow> rat \<Rightarrow> int \<Rightarrow> rat \<Rightarrow> string \<Rightarrow> string \<Rightarrow> string \<Rightarrow> string"

definition generate_sanction ::
  "sanction_text \<Rightarrow> surroundings \<Rightarrow> customer list \<Rightarrow> state \<Rightarrow> string list
     \<Rightarrow> py_error + (sanction_success agent_result \<times> string list)" where
  "generate_sanction say env db s written =
     (if \<not> (truthy_str (customer_id s) \<and> truthy_num (approved_amount s)
             \<and> truthy_int (tenure_months s) \<and> truthy_num (interest_rate s)
             \<and> truthy_num (monthly_emi s))
      then Inr (Failure ''Missing required information for sanction letter'', written)
      else
        (let cid = the (customer_id s); amount = the (approved_amount s);
             months = the (tenure_months s); rate = the (interest_rate s);
             emi = the (monthly_emi s)
         in case generate_sanction_letter env db cid amount months rate emi written of
              Inl e \<Rightarrow> Inl e
            | Inr (None, written') \<Rightarrow>
                Inr (Failure ''Failed to generate sanction letter'', written')
            | Inr (Some l, written') \<Rightarrow>
                (case get_customer_by_id db cid of
                   None \<Rightarrow> Inr (Failure ''Failed to generate sanction letter'', written')
                 | Some c \<Rightarrow>
                     (let download_url = get_document_download_url (lt_file_path l) in
                      case first_word (cust_name c) of
                        Inl e \<Rightarrow> Inl e
                      | Inr _ \<Rightarrow>
                          Inr (Success
                                 \<lparr>sn_sanction_letter_url = download_url,
                                  sn_file_path = lt_file_path l,
                                  sn_reference_number = lt_reference_number l,
                                  sn_validity_date = lt_validity_date l,
                                  sn_message =
                                    say c amount months emi (lt_reference_number l)
                                      download_url (lt_validity_date l)\<rparr>,
                               written')))))"

definition sanction_agent_node ::
  "sanction_text \<Rightarrow> surroundings \<Rightarrow> customer list \<Rightarrow> state \<Rightarrow> string list
     \<Rightarrow> py_error + (state \<times> string list)" where
  "sanction_agent_node say env db s written =
     (case generate_sanction say env db s written of
        Inl e \<Rightarrow> Inl e
      | Inr (Success r, written') \<Rightarrow>
          (let new_state = add_message s ''assistant'' (sn_message r) (Some ''sanction'')
           in Inr (new_state
                     \<lparr>sanction_letter_url := Some (sn_sanction_letter_url r),
                      sanction_letter_ref_no := Some (sn_reference_number r),
                      current_stage := Some ''closure'',
                      active_agent := Some ''master'',
                      next_action := None\<rparr>,
                   written'))
      | Inr (Failure err, written') \<Rightarrow>
          Inr (s\<lparr>active_agent := Some ''master'', last_error := Some err\<rparr>, written'))"

section \<open>One-time codes (crm\_tools)\<close>

text \<open>
  \<^verbatim>\<open>int(hashlib.md5(phone.encode()).hexdigest(), 16)\<close> is the digest of the phone string
  read as a natural number; the hash function of the standard library is the parameter
  \<open>md5\<close>. The code is the last six characters of its decimal rendering (all of it when it
  is shorter), and the function prints one line to the console.
\<close>

definition simulate_otp_generation ::
  "(string \<Rightarrow> nat) \<Rightarrow> string \<Rightarrow> string list \<Rightarrow> string \<times> string list" where
  "simulate_otp_generation md5 phone console =
     (let digits = str_nat (md5 phone);
          otp = drop (length digits - 6) digits
      in (otp, console @ [''[DEMO] OTP for '' @ phone @ '': '' @ otp]))"

definition verify_otp :: "string \<Rightarrow> string \<Rightarrow> string \<Rightarrow> bool" where
  "verify_otp phone provided_otp generated_otp = (provided_otp = generated_otp)"

section \<open>The stage invariant of the specification\<close>

text \<open>
  In the words of the specification: a status of approved or rejected implies that the
  current stage is closure.
\<close>

definition closure_invariant :: "state \<Rightarrow> bool" where
  "closure_invariant s =
     (application_status s \<in> {Some ''approved'', Some ''rejected''}
        \<longrightarrow> current_stage s = Some ''closure'')"

section \<open>Sample records\<close>

text \<open>
  The three customers of the test scenarios (identifier, credit score and pre-approved limit
  as \<^verbatim>\<open>tests/test_scenarios.py\<close> states them; the salaries and the existing loan are
  sample values), an application that has reached underwriting, the same application after
  approval and offer selection, and surroundings with a given day and second.
\<close>

definition rajesh :: customer where
  "rajesh = \<lparr>cust_id = ''CUST001'', cust_name = ''Rajesh Kumar'', cust_phone = ''9876543210'',
             cust_credit_score = 800, cust_pre_approved_limit = 500000,
             cust_monthly_salary = 120000, cust_segment = ''premium'',
             cust_existing_loans = []\<rparr>"

definition priya :: customer where
  "priya = \<lparr>cust_id = ''CUST002'', cust_name = ''Priya Sharma'', cust_phone = ''9876543211'',
            cust_credit_score = 750, cust_pre_approved_limit = 400000,
            cust_monthly_salary = 90000, cust_segment = ''prime'',
            cust_existing_loans = [\<lparr>loan_emi = Some 5000, loan_outstanding = Some 100000\<rparr>]\<rparr>"

definition amit :: customer where
  "amit = \<lparr>cust_id = ''CUST003'', cust_name = ''Amit Patel'', cust_phone = ''9876543212'',
           cust_credit_score = 680, cust_pre_approved_limit = 200000,
           cust_monthly_salary = 60000, cust_segment = ''standard'',
           cust_existing_loans = []\<rparr>"

text \<open>A customer with a good score and a limit whose salary on file is zero.\<close>

definition meera :: customer where
  "meera = \<lparr>cust_id = ''CUST004'', cust_name = ''Meera Nair'', cust_phone = ''9876543213'',
            cust_credit_score = 750, cust_pre_approved_limit = 300000,
            cust_monthly_salary = 0, cust_segment = ''standard'',
            cust_existing_loans = []\<rparr>"

definition crm :: "customer list" where
  "crm = [rajesh, priya, amit]"

definition application :: "string \<Rightarrow> rat \<Rightarrow> state" where
  "application cid amount =
     \<lparr>customer_id = Some cid, conversation_history = [],
      current_stage = Some ''underwriting'', next_action = None,
      active_agent = Some ''underwriting'', application_status = Some ''in_progress'',
      requested_amount = Some amount, customer_needs = None, recommended_offers = None,
      tenure_months = None, interest_rate = None, monthly_emi = None,
      monthly_salary = None, salary_slip_uploaded = None, credit_score = None,
      underwriting_decision = None, approved_amount = None,
      conditional_requirements = None, rejection_reason = None,
      sanction_letter_url = None, sanction_letter_ref_no = None, last_error = None\<rparr>"

definition approved_application :: state where
  "approved_application =
     (application ''CUST001'' 400000)
       \<lparr>current_stage := Some ''sanction_generation'',
        application_status := Some ''approved'',
        approved_amount := Some 400000, tenure_months := Some 24,
        interest_rate := Some (9 / 100), monthly_emi := Some (1827390 / 100)\<rparr>"

definition at_time :: "nat \<Rightarrow> nat \<Rightarrow> surroundings" where
  "at_time day second =
     \<lparr>module_dir = ''/app/src/tools'',
      ref_time = \<lparr>dt_year = 2025, dt_month = 11, dt_day = day,
                  dt_hour = 10, dt_minute = 15, dt_second = second\<rparr>,
      file_time = \<lparr>dt_year = 2025, dt_month = 11, dt_day = day,
                   dt_hour = 10, dt_minute = 15, dt_second = second\<rparr>,
      validity_date = ''December 2025''\<rparr>"

text \<open>Stand-ins for the text parameters.\<close>

definition quiet_decision :: decision_text where
  "quiet_decision el credit risk c amount = decision el"

definition quiet_sanction :: sanction_text where
  "quiet_sanction c amount months emi ref_no url valid = ref_no"

definition quiet_presentation :: presentation_text where
  "quiet_presentation c amount offers needs = needs"

definition plain_formats :: formats where
  "plain_formats = \<lparr>money = (\<lambda>x. ''Rs''), percent = (\<lambda>x. ''%'')\<rparr>"

text \<open>
  The sanction unit run on the approved application on day 3, and run again on the record
  and the files it left, a day and a second later.
\<close>

definition first_sanction :: "state \<times> string list" where
  "first_sanction =
     projr (sanction_agent_node quiet_sanction (at_time 3 0) crm approved_application [])"

definition second_sanction :: "state \<times> string list" where
  "second_sanction =
     projr (sanction_agent_node quiet_sanction (at_time 4 1) crm
              (fst first_sanction) (snd first_sanction))"

section \<open>Facts shared by the results\<close>

lemma crm_lookup:
  "get_customer_by_id crm ''CUST001'' = Some rajesh"
  "get_customer_by_id crm ''CUST002'' = Some priya"
  "get_customer_by_id crm ''CUST003'' = Some amit"
  by (simp_all add: get_customer_by_id_def crm_def rajesh_def priya_def amit_def)

lemmas underwriting_unfold =
  underwriting_agent_node_def process_underwriting_def fetch_credit_score_def
  check_eligibility_def calculate_risk_score_def calculate_total_existing_emi_def
  get_existing_loans_def verdict_def application_def crm_lookup rajesh_def priya_def amit_def
  truthy_str_def truthy_num_def truthy_bool_def Let_def add_message_def quiet_decision_def

lemmas sanction_unfold =
  sanction_agent_node_def generate_sanction_def generate_sanction_letter_def
  approved_application_def application_def crm_lookup rajesh_def first_word_def is_space_def
  truthy_str_def truthy_num_def truthy_int_def Let_def add_message_def quiet_sanction_def
  letter_reference_def letter_filename_def letter_path_def path_join_def at_time_def
  strftime_date_def strftime_stamp_def pad2_def get_document_download_url_def basename_def
  digit_def str_nat.simps

lemma str_nat_nonempty: "str_nat n \<noteq> []"
  by (subst str_nat.simps) simp

lemma length_str_nat_step:
  "length (str_nat n) = (if n < 10 then 1 else Suc (length (str_nat (n div 10))))"
  by (subst str_nat.simps) simp

lemma length_str_nat_le: "0 < k \<Longrightarrow> (length (str_nat n) \<le> k) = (n < 10 ^ k)"
proof (induction k arbitrary: n)
  case 0
  then show ?case by simp
next
  case (Suc k)
  show ?case
  proof (cases "n < 10")
    case True
    have "(1::nat) \<le> 10 ^ k" by simp
    with True have "n < 10 * 10 ^ k" by linarith
    then have "n < 10 ^ Suc k" by simp
    with True show ?thesis by (subst length_str_nat_step) simp
  next
    case False
    show ?thesis
    proof (cases "k = 0")
      case True
      have "0 < length (str_nat (n div 10))" using str_nat_nonempty by simp
      with True False show ?thesis by (subst length_str_nat_step) simp
    next
      case k: False
      then have IH: "(length (str_nat (n div 10)) \<le> k) = (n div 10 < 10 ^ k)"
        using Suc.IH by simp
      have "(n div 10 < 10 ^ k) = (n < 10 ^ Suc k)"
        by (simp add: div_less_iff_less_mult mult.commute)
      with IH False show ?thesis by (subst length_str_nat_step) simp
    qed
  qed
qed

lemma floor_rat_numeral_div [simp]:
  "\<lfloor>(numeral a :: rat) / numeral b\<rfloor> = numeral a div numeral b"
  using floor_divide_of_int_eq [of "numeral a" "numeral b", where ?'a = rat] by simp

subsection \<open>Instalments\<close>

text \<open>
  Rounding to two decimals moves a value by at most half a hundredth. At a positive rate
  \<open>calculate_emi\<close> is the annuity payment rounded; at rate zero it is the quotient, not
  rounded. The total interest is within half a hundredth of the instalment times the number
  of months less the principal, at every rate from zero up.
\<close>

lemma round_half_even_close: "\<bar>of_int (round_half_even y) - y\<bar> \<le> 1 / 2"
proof -
  have "of_int \<lfloor>y\<rfloor> \<le> y" "y < of_int \<lfloor>y\<rfloor> + 1" by linarith+
  then show ?thesis
    by (auto simp: round_half_even_def Let_def abs_le_iff)
qed

lemma round2_close: "\<bar>round2 x - x\<bar> \<le> 1 / 200"
proof -
  have "\<bar>of_int (round_half_even (x * 100)) - x * 100\<bar> \<le> 1 / 2"
    by (rule round_half_even_close)
  then show ?thesis by (simp add: round2_def abs_le_iff field_simps)
qed

lemma emi_positive_rate:
  assumes "0 < rate" "0 < n"
  shows "calculate_emi P rate (int n) = Inr (round2 (annuity_payment P (rate / 12) n))"
proof -
  have "1 < 1 + rate / 12" using assms by simp
  then have "1 < (1 + rate / 12) ^ n" using assms(2) by (intro one_less_power) simp_all
  then have "(1 + rate / 12) ^ n - 1 \<noteq> 0" by linarith
  then show ?thesis
    using assms by (simp add: calculate_emi_def annuity_payment_def py_pow_def Let_def)
qed

lemma emi_zero_rate:
  assumes "0 < n"
  shows "calculate_emi P 0 (int n) = Inr (annuity_payment P (0 / 12) n)"
  using assms by (simp add: calculate_emi_def annuity_payment_def)

lemma total_interest_round_trip:
  assumes "0 \<le> rate" "0 < n"
  shows "\<exists>emi ti. calculate_emi P rate (int n) = Inr emi
           \<and> calculate_total_interest P rate (int n) = Inr ti
           \<and> \<bar>ti - (emi * of_nat n - P)\<bar> \<le> 1 / 200"
proof -
  have "\<exists>emi. calculate_emi P rate (int n) = Inr emi"
  proof (cases "rate = 0")
    case True
    with assms show ?thesis by (simp add: emi_zero_rate)
  next
    case False
    with assms have "0 < rate" by simp
    then show ?thesis using assms(2) by (simp add: emi_positive_rate)
  qed
  then obtain emi where emi: "calculate_emi P rate (int n) = Inr emi" ..
  then have "calculate_total_interest P rate (int n) = Inr (round2 (emi * of_nat n - P))"
    by (simp add: calculate_total_interest_def Let_def)
  with emi round2_close [of "emi * of_nat n - P"] show ?thesis by simp
qed

subsection \<open>Underwriting\<close>

lemma fetch_found:
  "get_customer_by_id db cid = Some c \<Longrightarrow>
   \<exists>cr. fetch_credit_score db cid = Some cr \<and> cr_credit_score cr = cust_credit_score c"
  by (simp add: fetch_credit_score_def)

lemma risk_defined:
  "get_customer_by_id db cid = Some c \<Longrightarrow> cust_pre_approved_limit c \<noteq> 0 \<Longrightarrow>
   cust_monthly_salary c \<noteq> 0 \<Longrightarrow> \<exists>r. calculate_risk_score db cid amount = Inr r"
  by (simp add: calculate_risk_score_def Let_def)

lemma eligibility_instant:
  "get_customer_by_id db cid = Some c \<Longrightarrow> 700 \<le> cust_credit_score c \<Longrightarrow>
   amount \<le> cust_pre_approved_limit c \<Longrightarrow>
   check_eligibility fmt db cid amount salary =
     Inr ((verdict ''approved'' ''Loan amount is within pre-approved limit''
             (Some amount) [] [])\<lparr>instant_approval := True\<rparr>)"
  by (simp add: check_eligibility_def Let_def)

lemma underwriting_keeps_stage:
  "underwriting_agent_node say fmt db s = Inr s' \<Longrightarrow> current_stage s' = current_stage s"
  by (auto simp: underwriting_agent_node_def Let_def add_message_def
           split: sum.splits agent_result.splits if_splits)





subsection \<open>Sanction\<close>

lemma basename_append_slash: "basename (a @ CHR ''/'' # b) = basename b"
proof -
  have "takeWhile (\<lambda>c. c \<noteq> CHR ''/'') (rev b @ CHR ''/'' # rev a)
          = takeWhile (\<lambda>c. c \<noteq> CHR ''/'') (rev b)"
  proof (cases "\<forall>x\<in>set (rev b). x \<noteq> CHR ''/''")
    case True
    then have A: "takeWhile (\<lambda>c. c \<noteq> CHR ''/'') (rev b @ CHR ''/'' # rev a)
                 = rev b @ takeWhile (\<lambda>c. c \<noteq> CHR ''/'') (CHR ''/'' # rev a)"
      by (intro takeWhile_append2) blast
    from True have B: "takeWhile (\<lambda>c. c \<noteq> CHR ''/'') (rev b) = rev b"
      by (intro iffD2 [OF takeWhile_eq_all_conv]) blast
    show ?thesis unfolding A B by simp
  next
    case False
    then obtain x where "x \<in> set (rev b)" "\<not> x \<noteq> CHR ''/''" by blast
    then show ?thesis by (rule takeWhile_append1)
  qed
  then show ?thesis by (simp add: basename_def)
qed

lemma basename_path_join:
  assumes "b \<noteq> []"
  shows "basename (path_join a b) = basename b"
proof (cases "hd b = CHR ''/''")
  case True
  with assms show ?thesis by (simp add: path_join_def)
next
  case relative: False
  show ?thesis
  proof (cases "a = []")
    case True
    then show ?thesis by (simp add: path_join_def)
  next
    case False
    show ?thesis
    proof (cases "last a = CHR ''/''")
      case True
      with False have "a = butlast a @ [CHR ''/'']" by (metis append_butlast_last_id)
      then have "a @ b = butlast a @ CHR ''/'' # b"
        by (metis append.assoc append_Cons append_Nil)
      then have "basename (a @ b) = basename b" by (simp only: basename_append_slash)
      with True relative show ?thesis by (simp add: path_join_def)
    next
      case False
      with relative \<open>a \<noteq> []\<close> show ?thesis
        by (simp add: path_join_def basename_append_slash)
    qed
  qed
qed

lemma letter_url:
  "get_document_download_url (letter_path env cid)
     = ''/api/documents/download/'' @ basename (letter_filename env cid)"
  by (simp add: get_document_download_url_def letter_path_def basename_path_join
                letter_filename_def)

lemma sanction_success:
  assumes "customer_id s = Some cid" "cid \<noteq> []"
    and "get_customer_by_id db cid = Some c"
    and "first_word (cust_name c) = Inr w"
    and "truthy_num (approved_amount s)" "truthy_int (tenure_months s)"
        "truthy_num (interest_rate s)" "truthy_num (monthly_emi s)"
  shows "sanction_agent_node say env db s written =
           Inr ((add_message s ''assistant''
                   (say c (the (approved_amount s)) (the (tenure_months s)) (the (monthly_emi s))
                      (letter_reference env cid)
                      (get_document_download_url (letter_path env cid)) (validity_date env))
                   (Some ''sanction''))
                  \<lparr>sanction_letter_url := Some (get_document_download_url (letter_path env cid)),
                   sanction_letter_ref_no := Some (letter_reference env cid),
                   current_stage := Some ''closure'',
                   active_agent := Some ''master'',
                   next_action := None\<rparr>,
                written @ [letter_path env cid])"
  using assms
  by (simp add: sanction_agent_node_def generate_sanction_def generate_sanction_letter_def
                truthy_str_def Let_def)

lemma sanction_node_success:
  assumes "generate_sanction say env db s w = Inr (Success r, w')"
  shows "sanction_agent_node say env db s w =
           Inr ((add_message s ''assistant'' (sn_message r) (Some ''sanction''))
                  \<lparr>sanction_letter_url := Some (sn_sanction_letter_url r),
                   sanction_letter_ref_no := Some (sn_reference_number r),
                   current_stage := Some ''closure'',
                   active_agent := Some ''master'',
                   next_action := None\<rparr>, w')"
  using assms by (simp add: sanction_agent_node_def)

lemma sanction_declines:
  assumes "\<not> truthy_str (customer_id s) \<or> \<not> truthy_num (approved_amount s)
           \<or> \<not> truthy_int (tenure_months s) \<or> \<not> truthy_num (interest_rate s)
           \<or> \<not> truthy_num (monthly_emi s)"
  shows "generate_sanction say env db s written =
           Inr (Failure ''Missing required information for sanction letter'', written)"
proof -
  have "\<not> (truthy_str (customer_id s) \<and> truthy_num (approved_amount s)
           \<and> truthy_int (tenure_months s) \<and> truthy_num (interest_rate s)
           \<and> truthy_num (monthly_emi s))"
    using assms by blast
  then show ?thesis
    unfolding generate_sanction_def by (simp only: not_False_eq_True if_True)
qed

lemma first_sanction_run:
  "sanction_agent_node quiet_sanction (at_time 3 0) crm approved_application []
     = Inr first_sanction"
  "customer_id (fst first_sanction) = Some ''CUST001''"
  "truthy_num (approved_amount (fst first_sanction))"
  "truthy_int (tenure_months (fst first_sanction))"
  "truthy_num (interest_rate (fst first_sanction))"
  "truthy_num (monthly_emi (fst first_sanction))"
  "sanction_letter_ref_no (fst first_sanction) = Some ''SL/20251103/CUST001''"
  "sanction_letter_url (fst first_sanction)
     = Some ''/api/documents/download/sanction_letter_CUST001_20251103_101500.pdf''"
  "snd first_sanction
     = [''/app/src/tools/../../data/output/sanction_letter_CUST001_20251103_101500.pdf'']"
  unfolding first_sanction_def by (simp_all add: sanction_unfold)

section \<open>C1: approved or rejected status and the closure stage\<close>

text \<open>
  As stated, C1 fails. The application of customer CUST001 for 400000 is in the underwriting
  stage with status \<open>in_progress\<close>, so it satisfies the invariant. The underwriting step
  returns a record with status \<open>approved\<close> whose stage is still \<open>underwriting\<close>: the
  invariant is broken by the very step the claim names.
\<close>

theorem closure_invariant_counterexample:
  "closure_invariant (application ''CUST001'' 400000)
   \<and> \<not> isl (underwriting_agent_node quiet_decision plain_formats crm
               (application ''CUST001'' 400000))
   \<and> application_status (projr (underwriting_agent_node quiet_decision plain_formats crm
               (application ''CUST001'' 400000))) = Some ''approved''
   \<and> current_stage (projr (underwriting_agent_node quiet_decision plain_formats crm
               (application ''CUST001'' 400000))) = Some ''underwriting''
   \<and> \<not> closure_invariant (projr (underwriting_agent_node quiet_decision plain_formats crm
               (application ''CUST001'' 400000)))"
  by (simp add: underwriting_unfold closure_invariant_def)

text \<open>
  C1, amended. The underwriting step never changes \<open>current_stage\<close>: when it sets the
  status to approved or rejected, the record it returns satisfies the invariant exactly when
  the stage was closure already. The stage becomes closure at a successful sanction step,
  which keeps the status; every record such a step returns satisfies the invariant.
\<close>

theorem closure_set_by_sanction_only:
  "(underwriting_agent_node say fmt db s = Inr s' \<longrightarrow>
      current_stage s' = current_stage s
      \<and> (application_status s' \<in> {Some ''approved'', Some ''rejected''} \<longrightarrow>
           closure_invariant s' = (current_stage s = Some ''closure'')))
   \<and> (generate_sanction say2 env db a w = Inr (Success r, w') \<longrightarrow>
        (\<exists>t. sanction_agent_node say2 env db a w = Inr (t, w')
            \<and> current_stage t = Some ''closure''
            \<and> application_status t = application_status a
            \<and> closure_invariant t))"
proof (intro conjI impI)
  assume uw: "underwriting_agent_node say fmt db s = Inr s'"
  then show "current_stage s' = current_stage s" by (rule underwriting_keeps_stage)
  assume "application_status s' \<in> {Some ''approved'', Some ''rejected''}"
  then show "closure_invariant s' = (current_stage s = Some ''closure'')"
    using underwriting_keeps_stage [OF uw] by (auto simp: closure_invariant_def)
next
  assume "generate_sanction say2 env db a w = Inr (Success r, w')"
  then show "\<exists>t. sanction_agent_node say2 env db a w = Inr (t, w')
            \<and> current_stage t = Some ''closure''
            \<and> application_status t = application_status a
            \<and> closure_invariant t"
    by (simp add: sanction_node_success closure_invariant_def add_message_def)
qed

theorem closure_set_by_sanction_only_witness:
  "current_stage (projr (underwriting_agent_node quiet_decision plain_formats crm
       (application ''CUST001'' 400000))) = Some ''underwriting''
   \<and> closure_invariant (projr (underwriting_agent_node quiet_decision plain_formats crm
       (application ''CUST001'' 400000))) = False
   \<and> (\<exists>t. sanction_agent_node quiet_sanction (at_time 3 0) crm approved_application []
              = Inr (t, snd first_sanction)
          \<and> current_stage t = Some ''closure''
          \<and> application_status t = Some ''approved''
          \<and> closure_invariant t)"
proof -
  have uw: "underwriting_agent_node quiet_decision plain_formats crm
              (application ''CUST001'' 400000)
            = Inr (projr (underwriting_agent_node quiet_decision plain_formats crm
                (application ''CUST001'' 400000)))"
    by (simp add: underwriting_unfold)
  have st: "application_status (projr (underwriting_agent_node quiet_decision plain_formats crm
                (application ''CUST001'' 400000))) = Some ''approved''"
    by (simp add: underwriting_unfold)
  have "\<exists>r. generate_sanction quiet_sanction (at_time 3 0) crm approved_application []
              = Inr (Success r, snd first_sanction)"
    unfolding first_sanction_def by (simp add: sanction_unfold)
  then obtain r where r:
    "generate_sanction quiet_sanction (at_time 3 0) crm approved_application []
       = Inr (Success r, snd first_sanction)" ..
  have a: "application_status approved_application = Some ''approved''"
    "current_stage (application ''CUST001'' 400000) = Some ''underwriting''"
    by (simp_all add: approved_application_def application_def)
  show ?thesis
    using closure_set_by_sanction_only [where say = quiet_decision and fmt = plain_formats
        and db = crm and s = "application ''CUST001'' 400000"
        and s' = "projr (underwriting_agent_node quiet_decision plain_formats crm
                (application ''CUST001'' 400000))"
        and ?say2.0 = quiet_sanction and env = "at_time 3 0" and a = approved_application
        and w = "[]" and r = r and w' = "snd first_sanction"]
      uw st r a
    by simp
qed

section \<open>C2: routing is a function of signal, stage and status\<close>

text \<open>
  C2. The router's decision is the dispatch policy applied to \<open>next_action\<close>,
  \<open>current_stage\<close> and \<open>application_status\<close>, and to nothing else of the record: each of
  the four delegation signals selects its unit whatever the stage and the status are;
  otherwise the closure stage with a status of approved, rejected or abandoned gives
  \<open>end\<close>; otherwise the decision is \<open>master\<close>.
\<close>

theorem route_master_agent_dispatch:
  "route_master_agent s =
     dispatch_policy (next_action s) (current_stage s) (application_status s)
   \<and> dispatch_policy (Some ''delegate_to_sales'') stage status = ''sales''
   \<and> dispatch_policy (Some ''delegate_to_verification'') stage status = ''verification''
   \<and> dispatch_policy (Some ''delegate_to_underwriting'') stage status = ''underwriting''
   \<and> dispatch_policy (Some ''delegate_to_sanction'') stage status = ''sanction''"
  by (simp add: route_master_agent_def dispatch_policy_def delegation_target_def)

section \<open>C3: the conditional scenario\<close>



section \<open>C4: the instant approval scenario\<close>

text \<open>
  As stated, C4 fails: a credit score of at least 700 and a requested amount within the
  pre-approved limit do not suffice. The underwriting step also computes the risk score,
  which divides by the salary on file: for customer CUST004 (score 750, limit 300000, salary
  on file 0) asking for 200000 the step raises \<open>ZeroDivisionError\<close> and returns no
  record. And the step takes a requested amount of 0 for a missing one: for CUST001 asking
  for 0 it reports the missing input and leaves the status \<open>in_progress\<close>.
\<close>

theorem instant_approval_counterexample:
  "get_customer_by_id [meera] ''CUST004'' = Some meera
   \<and> 700 \<le> cust_credit_score meera
   \<and> requested_amount (application ''CUST004'' 200000) = Some 200000
   \<and> 200000 \<le> cust_pre_approved_limit meera
   \<and> underwriting_agent_node quiet_decision plain_formats [meera]
         (application ''CUST004'' 200000) = Inl ZeroDivisionError
   \<and> 700 \<le> cust_credit_score rajesh
   \<and> 0 \<le> cust_pre_approved_limit rajesh
   \<and> underwriting_agent_node quiet_decision plain_formats crm (application ''CUST001'' 0)
       = Inr ((application ''CUST001'' 0)
                \<lparr>active_agent := Some ''master'',
                 last_error := Some ''Missing customer ID or requested amount''\<rparr>)
   \<and> application_status (application ''CUST001'' 0) = Some ''in_progress''"
  by (simp add: underwriting_unfold meera_def get_customer_by_id_def)

text \<open>
  C4, amended. For a customer on file with a credit score of at least 700 and a salary on
  file that is not zero, and a record that names the customer by a non-empty identifier and
  carries a requested amount that is positive and within the pre-approved limit, one
  underwriting step returns a record whose decision is \<open>approved\<close>, whose status is
  \<open>approved\<close> and whose approved amount is the requested amount.
\<close>

theorem instant_approval:
  assumes id: "customer_id s = Some cid" "cid \<noteq> []"
    and found: "get_customer_by_id db cid = Some c"
    and score: "700 \<le> cust_credit_score c"
    and amount: "requested_amount s = Some a" "0 < a" "a \<le> cust_pre_approved_limit c"
    and salary: "cust_monthly_salary c \<noteq> 0"
  shows "\<exists>s'. underwriting_agent_node say fmt db s = Inr s'
           \<and> underwriting_decision s' = Some ''approved''
           \<and> application_status s' = Some ''approved''
           \<and> approved_amount s' = Some a"
proof -
  obtain cr where cr: "fetch_credit_score db cid = Some cr"
    using fetch_found [OF found] by blast
  have limit: "cust_pre_approved_limit c \<noteq> 0" using amount by auto
  obtain r where r: "calculate_risk_score db cid a = Inr r"
    using risk_defined [OF found limit salary] by blast
  have el: "\<And>salary. check_eligibility fmt db cid a salary =
            Inr ((verdict ''approved'' ''Loan amount is within pre-approved limit''
                    (Some a) [] [])\<lparr>instant_approval := True\<rparr>)"
    by (rule eligibility_instant [OF found score amount(3)])
  have "\<exists>p. process_underwriting say fmt db s = Inr (Success p)
          \<and> uw_decision p = ''approved'' \<and> uw_approved_amount p = Some a"
    using id amount(1,2) found cr r el
    by (simp add: process_underwriting_def truthy_str_def truthy_num_def Let_def verdict_def)
  then obtain p where p: "process_underwriting say fmt db s = Inr (Success p)"
      "uw_decision p = ''approved''" "uw_approved_amount p = Some a"
    by blast
  show ?thesis using p by (simp add: underwriting_agent_node_def Let_def add_message_def)
qed

theorem instant_approval_witness:
  "\<exists>s'. underwriting_agent_node quiet_decision plain_formats crm
           (application ''CUST001'' 400000) = Inr s'
       \<and> underwriting_decision s' = Some ''approved''
       \<and> application_status s' = Some ''approved''
       \<and> approved_amount s' = Some 400000"
  by (rule instant_approval [where c = rajesh and cid = "''CUST001''"])
     (simp_all add: application_def crm_lookup rajesh_def)

section \<open>C5: the rejection scenario\<close>

text \<open>
  C5. For a customer on file with a credit score below 700, \<open>check_eligibility\<close> returns
  the decision \<open>rejected\<close> with a reason that is not empty and a list of recommendations
  that is not empty. The result is the same for every requested amount and every salary
  argument, and for every customer store in which the customer has the same score, whatever
  the pre-approved limit there.
\<close>

theorem low_score_rejected:
  assumes found: "get_customer_by_id db cid = Some c"
    and low: "cust_credit_score c < 700"
  shows "\<exists>e. check_eligibility fmt db cid amount salary = Inr e
           \<and> decision e = ''rejected''
           \<and> reason e \<noteq> []
           \<and> recommendations e \<noteq> []
           \<and> check_eligibility fmt db cid amount' salary' = Inr e
           \<and> (\<forall>db' c'. get_customer_by_id db' cid = Some c'
                  \<and> cust_credit_score c' = cust_credit_score c
                \<longrightarrow> check_eligibility fmt db' cid amount' salary' = Inr e)"
  using assms by (simp add: check_eligibility_def Let_def verdict_def)

theorem low_score_rejected_witness:
  "\<exists>e. check_eligibility plain_formats crm ''CUST003'' 600000 None = Inr e
       \<and> decision e = ''rejected''
       \<and> reason e \<noteq> []
       \<and> recommendations e \<noteq> []
       \<and> check_eligibility plain_formats crm ''CUST003'' 100000 (Some 60000) = Inr e"
proof -
  have "cust_credit_score amit < 700" by (simp add: amit_def)
  then show ?thesis
    using low_score_rejected [OF crm_lookup(3), of plain_formats 600000 None 100000
        "Some 60000"]
    by blast
qed

section \<open>C6: invoking the sanction unit again\<close>

text \<open>
  As stated, C6 fails. The sanction unit run on the approved application of CUST001 on
  day 3 stores the reference \<open>SL/20251103/CUST001\<close> and writes one file. Run again on
  that record a day and a second later, it writes a second file and stores another
  reference and another location.
\<close>

theorem sanction_twice_counterexample:
  "sanction_agent_node quiet_sanction (at_time 3 0) crm approved_application []
     = Inr first_sanction
   \<and> sanction_letter_ref_no (fst first_sanction) = Some ''SL/20251103/CUST001''
   \<and> sanction_agent_node quiet_sanction (at_time 4 1) crm
        (fst first_sanction) (snd first_sanction) = Inr second_sanction
   \<and> sanction_letter_ref_no (fst second_sanction) = Some ''SL/20251104/CUST001''
   \<and> sanction_letter_url (fst second_sanction)
        \<noteq> sanction_letter_url (fst first_sanction)
   \<and> length (snd first_sanction) = 1 \<and> length (snd second_sanction) = 2"
  unfolding second_sanction_def first_sanction_def
  by (simp add: sanction_unfold)

text \<open>
  C6, amended. The sanction unit does not look at the stored letter. Invoked on a record that
  already carries a reference and a location (the customer on file, the required fields
  present), it writes one more file, at the path built from the customer identifier and the
  clock of this call, appends one more message, and stores the reference
  \<open>SL/date/customer\<close> and the download location of the new file. The stored reference
  and location are unchanged exactly when they were equal to these already, as they are when
  the second call reads the same clock as the first.
\<close>

theorem sanction_reentry_regenerates:
  assumes "customer_id s = Some cid" "cid \<noteq> []"
    and "get_customer_by_id db cid = Some c"
    and "first_word (cust_name c) = Inr w"
    and "truthy_num (approved_amount s)" "truthy_int (tenure_months s)"
        "truthy_num (interest_rate s)" "truthy_num (monthly_emi s)"
    and "sanction_letter_ref_no s = Some old_ref" "sanction_letter_url s = Some old_url"
  shows "\<exists>t. sanction_agent_node say env db s written = Inr (t, written @ [letter_path env cid])
           \<and> sanction_letter_ref_no t = Some (letter_reference env cid)
           \<and> sanction_letter_url t
               = Some (''/api/documents/download/'' @ basename (letter_filename env cid))
           \<and> (sanction_letter_ref_no t = sanction_letter_ref_no s)
               = (old_ref = letter_reference env cid)
           \<and> (sanction_letter_url t = sanction_letter_url s)
               = (old_url = ''/api/documents/download/'' @ basename (letter_filename env cid))
           \<and> length (conversation_history t) = Suc (length (conversation_history s))"
  using sanction_success [OF assms(1-8), of say env written] assms(9,10)
  by (auto simp: letter_url add_message_def)

theorem sanction_reentry_regenerates_witness:
  "\<exists>t. sanction_agent_node quiet_sanction (at_time 3 0) crm
          (fst first_sanction) (snd first_sanction)
           = Inr (t, snd first_sanction @ [letter_path (at_time 3 0) ''CUST001''])
       \<and> sanction_letter_ref_no t = sanction_letter_ref_no (fst first_sanction)
       \<and> sanction_letter_url t = sanction_letter_url (fst first_sanction)
       \<and> length (conversation_history t)
           = Suc (length (conversation_history (fst first_sanction)))"
proof -
  have name: "first_word (cust_name rajesh) = Inr ''Rajesh''"
    by (simp add: first_word_def is_space_def rajesh_def)
  have ref: "letter_reference (at_time 3 0) ''CUST001'' = ''SL/20251103/CUST001''"
    by (simp add: sanction_unfold)
  have url: "''/api/documents/download/'' @ basename (letter_filename (at_time 3 0) ''CUST001'')
        = ''/api/documents/download/sanction_letter_CUST001_20251103_101500.pdf''"
    by (simp add: sanction_unfold)
  show ?thesis
    using sanction_reentry_regenerates [OF first_sanction_run(2) _ crm_lookup(1) name
        first_sanction_run(3-8), of quiet_sanction "at_time 3 0" "snd first_sanction"]
      ref url first_sanction_run(7,8)
    by auto
qed

section \<open>C7: the instalment formula\<close>

text \<open>
  C7, evaluated where the code departs from it. For a principal of 100 at an annual rate of
  0 over 3 months the claim gives the quotient rounded to two decimals, 33.33;
  \<open>calculate_emi\<close> returns the quotient 100 / 3 itself, because the branch for a zero
  rate returns before the rounding that the other branch applies. The rest of C7 holds: see
  \<open>emi_positive_rate\<close> and \<open>total_interest_round_trip\<close>.
\<close>

theorem zero_rate_emi_unrounded:
  "calculate_emi 100 0 3 = Inr (100 / 3)
   \<and> round2 (annuity_payment 100 (0 / 12) 3) = 3333 / 100
   \<and> calculate_emi 100 0 3 \<noteq> Inr (round2 (annuity_payment 100 (0 / 12) 3))"
  by (simp add: calculate_emi_def round2_def round_half_even_def annuity_payment_def Let_def)

section \<open>C8: the sanction unit with a required field missing\<close>

text \<open>
  C8. If one of \<open>customer_id\<close>, \<open>approved_amount\<close>, \<open>tenure_months\<close>,
  \<open>interest_rate\<close> and \<open>monthly_emi\<close> is missing from the record, the sanction agent
  returns the error result \<open>Missing required information for sanction letter\<close> without
  raising and without writing a file, and the node returns the record with \<open>active_agent\<close>
  set to \<open>master\<close> and \<open>last_error\<close> set to that text; the status, the stage, the
  two sanction-letter fields, the history and every other field are as they were.
\<close>

theorem sanction_missing_field:
  assumes "customer_id s = None \<or> approved_amount s = None \<or> tenure_months s = None
           \<or> interest_rate s = None \<or> monthly_emi s = None"
  shows "generate_sanction say env db s written =
           Inr (Failure ''Missing required information for sanction letter'', written)
       \<and> (\<exists>t. sanction_agent_node say env db s written = Inr (t, written)
             \<and> t = s\<lparr>active_agent := Some ''master'',
                      last_error := Some ''Missing required information for sanction letter''\<rparr>
             \<and> application_status t = application_status s
             \<and> current_stage t = current_stage s
             \<and> sanction_letter_url t = sanction_letter_url s
             \<and> sanction_letter_ref_no t = sanction_letter_ref_no s
             \<and> conversation_history t = conversation_history s
             \<and> next_action t = next_action s)"
proof -
  have "\<not> truthy_str (customer_id s) \<or> \<not> truthy_num (approved_amount s)
           \<or> \<not> truthy_int (tenure_months s) \<or> \<not> truthy_num (interest_rate s)
           \<or> \<not> truthy_num (monthly_emi s)"
    using assms by (auto simp: truthy_str_def truthy_num_def truthy_int_def)
  then have "generate_sanction say env db s written =
           Inr (Failure ''Missing required information for sanction letter'', written)"
    by (rule sanction_declines)
  then show ?thesis by (simp add: sanction_agent_node_def)
qed

theorem sanction_missing_field_witness:
  "generate_sanction quiet_sanction (at_time 3 0) crm (application ''CUST001'' 400000) [] =
     Inr (Failure ''Missing required information for sanction letter'', [])
   \<and> sanction_agent_node quiet_sanction (at_time 3 0) crm (application ''CUST001'' 400000) [] =
       Inr ((application ''CUST001'' 400000)
              \<lparr>active_agent := Some ''master'',
               last_error := Some ''Missing required information for sanction letter''\<rparr>, [])"
proof -
  have "approved_amount (application ''CUST001'' 400000) = None"
    by (simp add: application_def)
  then show ?thesis
    using sanction_missing_field [of "application ''CUST001'' 400000" quiet_sanction
        "at_time 3 0" crm "[]"]
    by auto
qed

section \<open>C9: the sales unit without a requested amount\<close>

text \<open>
  C9. When \<open>requested_amount\<close> is absent, the sales node returns the record with
  \<open>next_action\<close> cleared and \<open>active_agent\<close> set to \<open>master\<close> and nothing else
  changed: no message is appended, \<open>last_error\<close> is not set, and the requested amount,
  the offers, the tenure, the rate and the instalment are as they were.
\<close>

theorem sales_without_amount_is_noop:
  assumes "requested_amount s = None"
  shows "\<exists>t. sales_agent_node present db s = Inr t
           \<and> t = s\<lparr>active_agent := Some ''master'', next_action := None\<rparr>
           \<and> next_action t = None
           \<and> active_agent t = Some ''master''
           \<and> conversation_history t = conversation_history s
           \<and> last_error t = last_error s
           \<and> requested_amount t = requested_amount s
           \<and> recommended_offers t = recommended_offers s
           \<and> tenure_months t = tenure_months s
           \<and> interest_rate t = interest_rate s
           \<and> monthly_emi t = monthly_emi s"
  using assms by (simp add: sales_agent_node_def truthy_num_def)

theorem sales_without_amount_is_noop_witness:
  "sales_agent_node quiet_presentation crm
     ((application ''CUST001'' 400000)
        \<lparr>requested_amount := None, next_action := Some ''delegate_to_sales''\<rparr>)
   = Inr ((application ''CUST001'' 400000)
        \<lparr>requested_amount := None, next_action := None, active_agent := Some ''master''\<rparr>)"
proof -
  have "requested_amount ((application ''CUST001'' 400000)
        \<lparr>requested_amount := None, next_action := Some ''delegate_to_sales''\<rparr>) = None"
    by simp
  then show ?thesis
    using sales_without_amount_is_noop [of "(application ''CUST001'' 400000)
        \<lparr>requested_amount := None, next_action := Some ''delegate_to_sales''\<rparr>"
        quiet_presentation crm]
    by (auto simp: application_def)
qed

section \<open>The shape of a one-time code\<close>

text \<open>
  The code \<open>simulate_otp_generation\<close> returns is the last six decimal digits of the digest
  of the phone. It has at most six characters, and exactly six when the digest is at least
  100000. Whether every phone string has such a digest is a property of the hash function,
  which is a parameter here; it is left open.
\<close>

lemma otp_code_shape:
  "fst (simulate_otp_generation md5 phone console)
     = drop (length (str_nat (md5 phone)) - 6) (str_nat (md5 phone))
   \<and> length (fst (simulate_otp_generation md5 phone console)) \<le> 6
   \<and> (length (fst (simulate_otp_generation md5 phone console)) = 6) = (100000 \<le> md5 phone)"
proof -
  have "(length (str_nat (md5 phone)) \<le> 5) = (md5 phone < 10 ^ 5)"
    by (rule length_str_nat_le) simp
  then have "(6 \<le> length (str_nat (md5 phone))) = (100000 \<le> md5 phone)"
    by auto
  then show ?thesis
    by (auto simp: simulate_otp_generation_def Let_def)
qed

end
